theory Spec2Isabelle
  imports Complex_Main "HOL-Library.AList" "HOL-Library.Multiset"
begin

section \<open>Python values shared by the modules\<close>

text \<open>
  The exceptions the modelled code can raise. Every handler in the sources is
  \<^verbatim>\<open>except Exception\<close> (or \<^verbatim>\<open>json.JSONDecodeError\<close> followed by it), so the
  kind never decides a branch; it is kept to say which statement raised.
\<close>

datatype exn = KeyError | TypeError | NameError | ZeroDivisionError
  | AttributeError | JSONDecodeError | OSError | ValueError



text \<open>
  Floats are modelled by \<^typ>\<open>real\<close>: rounding, overflow to infinity and NaN are outside
  the model. A feature vector is \<^verbatim>\<open>Dict[str, float]\<close>.
\<close>

type_synonym feats = "(string \<times> real) list"

section \<open>config.py\<close>

record config =
  FACE_CONFIDENCE_THRESHOLD :: real
  QUALITY_MIN_SIDE :: int
  HEURISTIC_WEIGHTS :: "(string \<times> real) list"

text \<open>The values config.py takes when no environment variable overrides them.\<close>

definition default_config :: config where
  "default_config = \<lparr>
     FACE_CONFIDENCE_THRESHOLD = 9 / 10,
     QUALITY_MIN_SIDE = 224,
     HEURISTIC_WEIGHTS =
       [(''fft_weight'', 9 / 10), (''ela_weight'', 6 / 10), (''lap_weight'', 2 / 10),
        (''jpeg_weight'', 15 / 100), (''threshold'', 7 / 10), (''steepness'', 4)] \<rparr>"

section \<open>ingest/filtering.py\<close>

text \<open>
  The field \<^verbatim>\<open>notes\<close> is \<open>flag_notes\<close> here. The notes are the strings
  \<^verbatim>\<open>f"min_side<{min_side}"\<close>, \<^verbatim>\<open>"no_face_found"\<close> and
  \<^verbatim>\<open>f"low_face_conf<{FACE_CONFIDENCE_THRESHOLD}"\<close>; each is represented by its tag and
  the value interpolated into it.
\<close>

datatype quality_note = MinSide int | NoFaceFound | LowFaceConf real

record QualityFlags =
  face_found :: bool
  face_conf :: real
  width :: int
  height :: int
  min_side_ok :: bool
  flag_notes :: "quality_note list"

definition accept_image ::
  "config \<Rightarrow> bool \<Rightarrow> real \<Rightarrow> int \<Rightarrow> int \<Rightarrow> int option \<Rightarrow> bool \<times> QualityFlags" where
  "accept_image cfg found conf w h min_side_arg =
     (let min_side = (case min_side_arg of None \<Rightarrow> QUALITY_MIN_SIDE cfg | Some m \<Rightarrow> m);
          ok = (min w h \<ge> min_side);
          notes0 = [];
          notes1 = (if \<not> ok then notes0 @ [MinSide min_side] else notes0);
          notes2 = (if \<not> found then notes1 @ [NoFaceFound] else notes1);
          notes3 = (if found \<and> conf < FACE_CONFIDENCE_THRESHOLD cfg
                    then notes2 @ [LowFaceConf (FACE_CONFIDENCE_THRESHOLD cfg)] else notes2);
          accept = (found \<and> conf \<ge> FACE_CONFIDENCE_THRESHOLD cfg \<and> ok)
      in (accept,
          \<lparr> face_found = found, face_conf = conf, width = w, height = h,
            min_side_ok = ok, flag_notes = notes3 \<rparr>))"

section \<open>models/detector.py: HeuristicDetector\<close>

text \<open>
  \<^verbatim>\<open>score\<close> is annotated \<^verbatim>\<open>Dict[str, float]\<close> but guards itself against anything
  else; the values a caller can put under a key are a float, \<^verbatim>\<open>None\<close> or a string.
  Arithmetic between a float and the latter two raises TypeError.
\<close>

datatype pyval = PyFloat real | PyNone | PyStr string









section \<open>trace/attribution.py: the database and its file\<close>

text \<open>
  A family is a dict read from JSON. The code reads \<^verbatim>\<open>features_mean\<close>,
  \<^verbatim>\<open>sample_count\<close> and \<^verbatim>\<open>last_updated\<close> through \<^verbatim>\<open>.get\<close> with a default and
  \<^verbatim>\<open>name\<close> through \<^verbatim>\<open>f["name"]\<close>, which raises KeyError on a family without
  one: a field is \<open>None\<close> when its key is absent. For \<^verbatim>\<open>last_updated\<close>, \<open>None\<close> is
  also the JSON null, which \<^verbatim>\<open>.get\<close> does not tell from an absent key.
\<close>

record family =
  name :: "string option"
  features_mean :: "feats option"
  sample_count :: "int option"
  last_updated :: "string option"

record database =
  version :: int
  families :: "family list option"

text \<open>
  \<^verbatim>\<open>self.db.get("families", [])\<close>, \<^verbatim>\<open>family.get("features_mean", {})\<close> and
  \<^verbatim>\<open>family.get("sample_count", 0)\<close>
\<close>

definition get_families :: "database \<Rightarrow> family list" where
  "get_families d = (case families d of None \<Rightarrow> [] | Some fs \<Rightarrow> fs)"

definition get_features_mean :: "family \<Rightarrow> feats" where
  "get_features_mean f = (case features_mean f of None \<Rightarrow> [] | Some m \<Rightarrow> m)"

definition get_sample_count :: "family \<Rightarrow> int" where
  "get_sample_count f = (case sample_count f of None \<Rightarrow> 0 | Some c \<Rightarrow> c)"

text \<open>
  What \<^verbatim>\<open>json.load\<close> makes of a file: it raises JSONDecodeError (\<open>Malformed\<close>), or
  returns a value on which line 23, \<^verbatim>\<open>len(self.db.get('families', []))\<close>, raises
  (\<open>NonObject\<close>: a top-level list, number or string, or an object whose
  \<^verbatim>\<open>families\<close> has no length), or returns a database. \<^verbatim>\<open>os.path.exists\<close> is false on
  \<open>Missing\<close>, and \<^verbatim>\<open>open\<close> raises OSError on \<open>Denied\<close>.
\<close>

datatype contents = Malformed | NonObject | Document database

datatype file_state = Missing | Denied | Present contents

text \<open>
  What happens when \<^verbatim>\<open>_save\<close> writes to a path: the write succeeds; or
  \<^verbatim>\<open>os.makedirs\<close> or \<^verbatim>\<open>open\<close> raises and the file stays as it was; or \<^verbatim>\<open>open\<close>
  has truncated the file and \<^verbatim>\<open>json.dump\<close> raises part way.
\<close>

datatype write_outcome = WriteOk | OpenFails | DumpFails

datatype level = DEBUG | INFO | WARNING | ERROR

text \<open>
  The state a method of \<^verbatim>\<open>AttributionIndex\<close> can touch: \<^verbatim>\<open>self.path\<close>,
  \<^verbatim>\<open>self.db\<close>, the files, and the module's logger (\<open>logged\<close>: the calls made, each
  message without its interpolated values). \<open>medium\<close> is the environment's answer to
  a write and never changes.
\<close>

record state =
  path :: string
  db :: database
  disk :: "string \<Rightarrow> file_state"
  medium :: "string \<Rightarrow> write_outcome"
  logged :: "(level \<times> string) list"

definition logmsg :: "level \<Rightarrow> string \<Rightarrow> state \<Rightarrow> state" where
  "logmsg l m s = s\<lparr>logged := logged s @ [(l, m)]\<rparr>"

definition default_db :: database where
  "default_db = \<lparr>
     version = 1,
     families = Some [
       \<lparr> name = Some ''faceswap_blend'',
         features_mean = Some [(''fft_high_ratio'', 62 / 100), (''ela_mean'', 18),
                               (''lap_var'', 120), (''jpeg_score'', 55 / 100)],
         sample_count = Some 0, last_updated = None \<rparr>,
       \<lparr> name = Some ''diffusion_inpaint'',
         features_mean = Some [(''fft_high_ratio'', 68 / 100), (''ela_mean'', 12),
                               (''lap_var'', 160), (''jpeg_score'', 35 / 100)],
         sample_count = Some 0, last_updated = None \<rparr>,
       \<lparr> name = Some ''stylegan_family'',
         features_mean = Some [(''fft_high_ratio'', 75 / 100), (''ela_mean'', 95 / 10),
                               (''lap_var'', 180), (''jpeg_score'', 4 / 10)],
         sample_count = Some 0, last_updated = None \<rparr> ] \<rparr>"

definition save :: "state \<Rightarrow> state" where
  "save s =
     (case medium s (path s) of
        WriteOk \<Rightarrow>
          logmsg DEBUG ''Fingerprints database saved''
            (s\<lparr>disk := (disk s)(path s := Present (Document (db s)))\<rparr>)
      | OpenFails \<Rightarrow> logmsg ERROR ''Failed to save fingerprints'' s
      | DumpFails \<Rightarrow>
          logmsg ERROR ''Failed to save fingerprints''
            (s\<lparr>disk := (disk s)(path s := Present Malformed)\<rparr>))"

definition create_default_db :: "state \<Rightarrow> state" where
  "create_default_db s =
     logmsg INFO ''Created default fingerprints database'' (save (s\<lparr>db := default_db\<rparr>))"

text \<open>
  The \<^verbatim>\<open>try\<close> block of \<^verbatim>\<open>_load\<close>. On \<open>NonObject\<close> line 22 has bound \<^verbatim>\<open>self.db\<close> to
  the value before line 23 raises; both handlers replace it at once, so the
  state at the raise is taken to be the state at entry.
\<close>

definition load_body :: "state \<Rightarrow> exn + state" where
  "load_body s =
     (case disk s (path s) of
        Missing \<Rightarrow> Inr (create_default_db (logmsg WARNING ''Fingerprints file not found'' s))
      | Denied \<Rightarrow> Inl OSError
      | Present Malformed \<Rightarrow> Inl JSONDecodeError
      | Present NonObject \<Rightarrow> Inl AttributeError
      | Present (Document d) \<Rightarrow> Inr (logmsg INFO ''Loaded attribution families'' (s\<lparr>db := d\<rparr>)))"

definition load :: "state \<Rightarrow> state" where
  "load s =
     (case load_body s of
        Inr s' \<Rightarrow> s'
      | Inl JSONDecodeError \<Rightarrow>
          create_default_db (logmsg ERROR ''Invalid JSON in fingerprints file'' s)
      | Inl e \<Rightarrow> create_default_db (logmsg ERROR ''Failed to load fingerprints'' s))"

text \<open>
  \<^verbatim>\<open>AttributionIndex(path)\<close>, run in the environment \<open>env\<close> (its files, medium and log).
\<close>

definition AttributionIndex_init :: "string \<Rightarrow> state \<Rightarrow> state" where
  "AttributionIndex_init p env = load (env\<lparr>path := p, db := \<lparr>version = 1, families = Some []\<rparr>\<rparr>)"

section \<open>trace/attribution.py: queries\<close>

definition all_families :: "state \<Rightarrow> (exn + string list) \<times> state" where
  "all_families s =
     (if list_all (\<lambda>f. name f \<noteq> None) (get_families (db s))
      then Inr (map (\<lambda>f. the (name f)) (get_families (db s)))
      else Inl KeyError, s)"

definition common_keys :: "feats \<Rightarrow> feats \<Rightarrow> string list" where
  "common_keys family_features fs = filter (\<lambda>k. k \<in> set (map fst fs)) (map fst family_features)"

text \<open>Lines 114 to 121. Both norms are at least \<open>1e-8\<close>, so the division never raises.\<close>

definition similarity :: "feats \<Rightarrow> feats \<Rightarrow> string list \<Rightarrow> real" where
  "similarity fs family_features keys =
     (let query_vector = map (\<lambda>k. the (map_of fs k)) keys;
          family_vector = map (\<lambda>k. the (map_of family_features k)) keys;
          dot_product = sum_list (map (\<lambda>(x, y). x * y) (zip query_vector family_vector));
          norm_query = sqrt (sum_list (map (\<lambda>x. x * x) query_vector)) + 1 / 10 ^ 8;
          norm_family = sqrt (sum_list (map (\<lambda>y. y * y) family_vector)) + 1 / 10 ^ 8
      in dot_product / (norm_query * norm_family))"

text \<open>
  One turn of the loop of \<^verbatim>\<open>match\<close>: the pair appended to \<^verbatim>\<open>results\<close>, if any, and
  the logger calls. A family without a name raises KeyError at line 110 or at line
  122, which the handler at line 124 logs before going on to the next family.
\<close>

definition match_family :: "feats \<Rightarrow> family \<Rightarrow> (string \<times> real) option \<times> (level \<times> string) list" where
  "match_family fs fam =
     (let family_features = get_features_mean fam;
          keys = common_keys family_features fs
      in case name fam of
           None \<Rightarrow> (None, [(ERROR, ''Error matching family'')])
         | Some n \<Rightarrow>
             if keys = [] then (None, [(DEBUG, ''No common features with family'')])
             else (Some (n, similarity fs family_features keys), []))"

primrec match_families :: "feats \<Rightarrow> family list \<Rightarrow> (string \<times> real) list \<times> (level \<times> string) list" where
  "match_families fs [] = ([], [])"
| "match_families fs (fam # rest) =
     (case match_family fs fam of (r, l) \<Rightarrow>
      case match_families fs rest of (rs, ls) \<Rightarrow>
        ((case r of None \<Rightarrow> rs | Some p \<Rightarrow> p # rs), l @ ls))"

text \<open>The slice \<^verbatim>\<open>xs[:k]\<close>: a negative \<open>k\<close> drops the last \<open>- k\<close> elements.\<close>

definition slice_to :: "int \<Rightarrow> 'a list \<Rightarrow> 'a list" where
  "slice_to k xs = (if 0 \<le> k then take (nat k) xs else take (nat (int (length xs) + k)) xs)"

text \<open>
  \<^verbatim>\<open>results.sort(key=lambda x: x[1], reverse=True)\<close> is stable and descending:
  insertion by the negated score, which puts an element before its equals to the right.
\<close>

definition match :: "feats \<Rightarrow> int \<Rightarrow> state \<Rightarrow> (string \<times> real) list \<times> state" where
  "match fs topk s =
     (if fs = [] then ([], logmsg WARNING ''No features provided for attribution matching'' s)
      else case match_families fs (get_families (db s)) of (results, entries) \<Rightarrow>
        (slice_to topk (sort_key (\<lambda>x. - snd x) results),
         logmsg DEBUG ''Attribution matching'' (s\<lparr>logged := logged s @ entries\<rparr>)))"

record family_stats =
  total_families :: nat
  total_samples :: int
  per_family :: "(string \<times> int \<times> string option) list"

definition get_family_stats :: "state \<Rightarrow> (exn + family_stats) \<times> state" where
  "get_family_stats s =
     (let fams = get_families (db s);
          total = sum_list (map get_sample_count fams)
      in (if list_all (\<lambda>f. name f \<noteq> None) fams
          then Inr \<lparr> total_families = length fams, total_samples = total,
                     per_family =
                       map (\<lambda>f. (the (name f), get_sample_count f, last_updated f)) fams \<rparr>
          else Inl KeyError, s))"

section \<open>trace/attribution.py: add_sample\<close>

text \<open>
  Lines 154 and 172 evaluate \<^verbatim>\<open>datetime.now().isoformat()\<close>. The module imports
  \<^verbatim>\<open>json\<close>, \<^verbatim>\<open>math\<close>, \<^verbatim>\<open>os\<close>, four names of \<^verbatim>\<open>typing\<close> and \<^verbatim>\<open>setup_logger\<close>
  (lines 1 to 5) and binds \<^verbatim>\<open>logger\<close> and \<^verbatim>\<open>AttributionIndex\<close>; no statement binds
  \<^verbatim>\<open>datetime\<close>, and it is no builtin. Looking the name up raises NameError.
\<close>

definition datetime_now_isoformat :: "exn + string" where
  "datetime_now_isoformat = Inl NameError"

text \<open>
  The search loop of lines 143 to 146: the index of the first family of that name,
  KeyError when a family without a name comes before it.
\<close>

fun find_family :: "string \<Rightarrow> family list \<Rightarrow> exn + nat option" where
  "find_family n [] = Inr None"
| "find_family n (f # fs) =
     (case name f of
        None \<Rightarrow> Inl KeyError
      | Some m \<Rightarrow>
          if m = n then Inr (Some 0)
          else (case find_family n fs of
                  Inl e \<Rightarrow> Inl e
                | Inr None \<Rightarrow> Inr None
                | Inr (Some i) \<Rightarrow> Inr (Some (Suc i))))"

text \<open>
  The loop of lines 163 to 168 over \<^verbatim>\<open>features.items()\<close>, on the dict
  \<^verbatim>\<open>current_features\<close>, which it changes in place: the exception raised, if any, and
  the dict as it then is. \<open>n + 1 = 0\<close> makes line 166 raise ZeroDivisionError.
\<close>

fun update_means :: "int \<Rightarrow> feats \<Rightarrow> feats \<Rightarrow> exn option \<times> feats" where
  "update_means n [] cur = (None, cur)"
| "update_means n ((key, v) # rest) cur =
     (case map_of cur key of
        Some m \<Rightarrow>
          if n + 1 = 0 then (Some ZeroDivisionError, cur)
          else update_means n rest (AList.update key (m + (v - m) / real_of_int (n + 1)) cur)
      | None \<Rightarrow> update_means n rest (AList.update key v cur))"

text \<open>
  Lines 160 to 172 on the family found. \<^verbatim>\<open>current_features\<close> is the family's own
  dict when it has one, so what the loop did stays in the family when a later line
  raises; a fresh \<^verbatim>\<open>{}\<close> is lost unless line 170 is reached.
\<close>

definition update_family :: "feats \<Rightarrow> family \<Rightarrow> exn option \<times> family" where
  "update_family features f =
     (let n = get_sample_count f in
      case update_means n features (get_features_mean f) of
        (Some e, cur) \<Rightarrow>
          (Some e, case features_mean f of None \<Rightarrow> f | Some m \<Rightarrow> f\<lparr>features_mean := Some cur\<rparr>)
      | (None, cur) \<Rightarrow>
          (case datetime_now_isoformat of
             Inl e \<Rightarrow> (Some e, f\<lparr>features_mean := Some cur, sample_count := Some (n + 1)\<rparr>)
           | Inr t \<Rightarrow>
               (None, f\<lparr>features_mean := Some cur, sample_count := Some (n + 1),
                        last_updated := Some t\<rparr>)))"

text \<open>Lines 150 to 155: the dict display evaluates its values in order.\<close>

definition new_family :: "string \<Rightarrow> feats \<Rightarrow> exn + family" where
  "new_family family_name features =
     (case datetime_now_isoformat of
        Inl e \<Rightarrow> Inl e
      | Inr t \<Rightarrow> Inr \<lparr> name = Some family_name, features_mean = Some features,
                       sample_count = Some 1, last_updated = Some t \<rparr>)"

text \<open>The \<^verbatim>\<open>try\<close> block: the exception raised, if any, and the state as it then is.\<close>

definition add_sample_body :: "string \<Rightarrow> feats \<Rightarrow> state \<Rightarrow> exn option \<times> state" where
  "add_sample_body family_name features s =
     (case families (db s) of
        None \<Rightarrow> (Some KeyError, s)
      | Some fams \<Rightarrow>
          (case find_family family_name fams of
             Inl e \<Rightarrow> (Some e, s)
           | Inr None \<Rightarrow>
               (case new_family family_name features of
                  Inl e \<Rightarrow> (Some e, s)
                | Inr f \<Rightarrow>
                    (None, save (logmsg INFO ''Created new attribution family''
                             (s\<lparr>db := (db s)\<lparr>families := Some (fams @ [f])\<rparr>\<rparr>))))
           | Inr (Some i) \<Rightarrow>
               (case update_family features (fams ! i) of
                  (Some e, f) \<Rightarrow> (Some e, s\<lparr>db := (db s)\<lparr>families := Some (fams[i := f])\<rparr>\<rparr>)
                | (None, f) \<Rightarrow>
                    (None, save (logmsg INFO ''Updated attribution family''
                             (s\<lparr>db := (db s)\<lparr>families := Some (fams[i := f])\<rparr>\<rparr>))))))"

definition add_sample :: "string \<Rightarrow> feats \<Rightarrow> state \<Rightarrow> bool \<times> state" where
  "add_sample family_name features s =
     (case add_sample_body family_name features s of
        (None, s') \<Rightarrow> (True, s')
      | (Some e, s') \<Rightarrow> (False, logmsg ERROR ''Failed to add sample to family'' s'))"

text \<open>
  Two environments for the examples: no file exists and every write succeeds; no file
  exists and no file can be opened for writing.
\<close>

definition empty_env :: state where
  "empty_env = \<lparr> path = [], db = \<lparr>version = 1, families = Some []\<rparr>,
                 disk = (\<lambda>p. Missing), medium = (\<lambda>p. WriteOk), logged = [] \<rparr>"


section \<open>utils/ela.py\<close>

text \<open>
  A PIL image, as far as \<^verbatim>\<open>error_level_analysis\<close> looks at it: its mode and, for each
  band, its 8-bit samples row by row. The PIL calls are modelled by what the library
  documents for such images; the JPEG codec is a parameter.
\<close>

datatype mode = L | RGB | RGBA

record image =
  mode :: mode
  bands :: "nat list list"

text \<open>
  \<^verbatim>\<open>ImageChops.difference(image1, image2)\<close> is \<^verbatim>\<open>abs(image1 - image2)\<close> sample by sample,
  ValueError when the modes or sizes differ.
\<close>

definition difference :: "image \<Rightarrow> image \<Rightarrow> exn + image" where
  "difference a b =
     (if mode a = mode b \<and> map length (bands a) = map length (bands b)
      then Inr \<lparr> mode = mode a,
                 bands = map (\<lambda>(x, y). map (\<lambda>(p, q). if p \<le> q then q - p else p - q) (zip x y))
                           (zip (bands a) (bands b)) \<rparr>
      else Inl ValueError)"

text \<open>
  \<^verbatim>\<open>ImageEnhance.Brightness(im).enhance(factor)\<close> blends a black image with \<^verbatim>\<open>im\<close>:
  each sample is multiplied by the factor, truncated, and clipped to 255.
\<close>

definition enhance :: "real \<Rightarrow> image \<Rightarrow> image" where
  "enhance factor im =
     im\<lparr>bands := map (map (\<lambda>p. nat (min 255 (max 0 \<lfloor>factor * real p\<rfloor>)))) (bands im)\<rparr>"

text \<open>
  \<^verbatim>\<open>jpeg quality im\<close> is the image \<^verbatim>\<open>Image.open\<close> reads back from what
  \<^verbatim>\<open>im.save(tmp, "JPEG", quality=quality)\<close> wrote; saving an RGBA image as JPEG raises
  OSError. \<^verbatim>\<open>getextrema()\<close> gives one (min, max) pair per band, but for a single-band
  image the pair itself, and the loop of line 18 then subscripts an \<^verbatim>\<open>int\<close>: TypeError.
  \<^verbatim>\<open>np.asarray\<close> holds every sample of every band.
\<close>

definition error_level_analysis :: "(nat \<Rightarrow> image \<Rightarrow> image) \<Rightarrow> image \<Rightarrow> nat \<Rightarrow> exn + image \<times> real" where
  "error_level_analysis jpeg im quality =
     (if mode im = RGBA then Inl OSError
      else
        let recompressed = jpeg quality im in
        case difference im recompressed of
          Inl e \<Rightarrow> Inl e
        | Inr ela_img \<Rightarrow>
            if mode ela_img = L then Inl TypeError
            else
              let scale = fold (\<lambda>band s. max s (fold max band 0)) (bands ela_img) 1;
                  ela_img2 = (if scale > 0 then enhance (255 / real scale) ela_img else ela_img);
                  arr = concat (bands ela_img2);
                  mean_abs = sum_list (map (\<lambda>p. \<bar>real p\<bar>) arr) / real (length arr)
              in Inr (ela_img2, mean_abs))"

text \<open>
  The mean absolute difference between an image and its re-encoded copy, over all
  bands and samples: what the docstring of \<^verbatim>\<open>error_level_analysis\<close> calls
  \<^verbatim>\<open>mean_abs_diff\<close>.
\<close>

definition mean_abs_diff :: "image \<Rightarrow> image \<Rightarrow> real" where
  "mean_abs_diff a b =
     sum_list (map (\<lambda>(p, q). \<bar>real p - real q\<bar>) (zip (concat (bands a)) (concat (bands b))))
       / real (length (concat (bands a)))"

section \<open>api/batch_processor.py\<close>



text \<open>
  The dict returned for an item: on success the keys \<^verbatim>\<open>id\<close>, \<^verbatim>\<open>face_found\<close>,
  \<^verbatim>\<open>face_confidence\<close>, \<^verbatim>\<open>heuristic_score\<close>, \<^verbatim>\<open>features\<close>, \<^verbatim>\<open>torch_available\<close> and
  \<^verbatim>\<open>torch_probs\<close> with \<^verbatim>\<open>success: True\<close>; on failure \<^verbatim>\<open>id\<close> and \<^verbatim>\<open>error\<close> with
  \<^verbatim>\<open>success: False\<close>.
\<close>

datatype item_result =
    Succeeded string bool real real feats bool "real list"
  | Failed string string





section \<open>Properties of the heuristic scorer\<close>














section \<open>Properties of the quality gate\<close>

text \<open>
  Claim C6, as amended. The gate accepts iff a face was found, its confidence reaches the
  configured threshold and the smaller side reaches the minimum side. It always returns
  the full flag set, echoing its inputs. The notes are, in this order: a min-side note
  iff the smaller side is too small, a no-face note iff no face was found, and a
  low-confidence note iff a face was found and its confidence is below the threshold.
  An accepted image has no notes.
\<close>

theorem accept_image_gate:
  "fst (accept_image cfg found conf w h ms) =
     (found \<and> conf \<ge> FACE_CONFIDENCE_THRESHOLD cfg
      \<and> min w h \<ge> (case ms of None \<Rightarrow> QUALITY_MIN_SIDE cfg | Some m \<Rightarrow> m))
   \<and> face_found (snd (accept_image cfg found conf w h ms)) = found
   \<and> face_conf (snd (accept_image cfg found conf w h ms)) = conf
   \<and> width (snd (accept_image cfg found conf w h ms)) = w
   \<and> height (snd (accept_image cfg found conf w h ms)) = h
   \<and> min_side_ok (snd (accept_image cfg found conf w h ms)) =
       (min w h \<ge> (case ms of None \<Rightarrow> QUALITY_MIN_SIDE cfg | Some m \<Rightarrow> m))
   \<and> flag_notes (snd (accept_image cfg found conf w h ms)) =
       (if min w h \<ge> (case ms of None \<Rightarrow> QUALITY_MIN_SIDE cfg | Some m \<Rightarrow> m) then []
        else [MinSide (case ms of None \<Rightarrow> QUALITY_MIN_SIDE cfg | Some m \<Rightarrow> m)])
       @ (if found then [] else [NoFaceFound])
       @ (if found \<and> conf < FACE_CONFIDENCE_THRESHOLD cfg
          then [LowFaceConf (FACE_CONFIDENCE_THRESHOLD cfg)] else [])
   \<and> (fst (accept_image cfg found conf w h ms)
        \<longrightarrow> flag_notes (snd (accept_image cfg found conf w h ms)) = [])"
  by (simp add: accept_image_def Let_def)

theorem accept_image_gate_witness:
  "fst (accept_image default_config True (95/100) 512 512 None)
   \<and> flag_notes (snd (accept_image default_config True (95/100) 512 512 None)) = []"
  using accept_image_gate [of default_config True "95/100" 512 512 None]
  by (simp add: default_config_def)

text \<open>
  The low-confidence note is guarded by \<^verbatim>\<open>face_found\<close>: with no face found and
  confidence 0.0, below the threshold 0.9, the only note is the no-face note.
\<close>

theorem accept_image_no_low_conf_note_without_face:
  "(0::real) < FACE_CONFIDENCE_THRESHOLD default_config
   \<and> \<not> fst (accept_image default_config False 0 512 512 None)
   \<and> flag_notes (snd (accept_image default_config False 0 512 512 None)) = [NoFaceFound]"
  by (simp add: accept_image_def default_config_def)

section \<open>Properties of the attribution index: construction\<close>


lemma save_path: "path (save s) = path s"
  by (simp add: save_def logmsg_def split: write_outcome.splits)

lemma save_medium: "medium (save s) = medium s"
  by (simp add: save_def logmsg_def split: write_outcome.splits)








section \<open>Properties of the attribution index: add_sample as shipped\<close>

lemma add_sample_unknown_family:
  assumes "families (db s) = Some fams" "find_family n fams = Inr None"
  shows "add_sample n v s = (False, logmsg ERROR ''Failed to add sample to family'' s)"
  using assms
  by (simp add: add_sample_def add_sample_body_def new_family_def datetime_now_isoformat_def)

lemma update_family_raises: "\<exists>e f'. update_family v f = (Some e, f')"
  by (simp add: update_family_def datetime_now_isoformat_def Let_def split: prod.splits option.splits)

lemma add_sample_body_raises: "\<exists>e s'. add_sample_body n v s = (Some e, s')"
proof (cases "families (db s)")
  case None
  then show ?thesis by (simp add: add_sample_body_def)
next
  case (Some fams)
  show ?thesis
  proof (cases "find_family n fams")
    case (Inl e)
    then show ?thesis using Some by (simp add: add_sample_body_def)
  next
    case (Inr r)
    show ?thesis
    proof (cases r)
      case None
      then show ?thesis using Some Inr
        by (simp add: add_sample_body_def new_family_def datetime_now_isoformat_def)
    next
      case (Some i)
      obtain e f' where "update_family v (fams ! i) = (Some e, f')"
        using update_family_raises by blast
      then show ?thesis using \<open>families (db s) = Some fams\<close> Inr Some
        by (simp add: add_sample_body_def)
    qed
  qed
qed

lemma add_sample_returns_False: "fst (add_sample n v s) = False"
proof -
  obtain e s' where "add_sample_body n v s = (Some e, s')"
    using add_sample_body_raises by blast
  then show ?thesis by (simp add: add_sample_def)
qed

lemma init_empty_env:
  "AttributionIndex_init p empty_env =
     \<lparr> path = p, db = default_db,
       disk = (\<lambda>q. Missing)(p := Present (Document default_db)),
       medium = (\<lambda>q. WriteOk),
       logged = [(WARNING, ''Fingerprints file not found''),
                 (DEBUG, ''Fingerprints database saved''),
                 (INFO, ''Created default fingerprints database'')] \<rparr>"
  by (simp add: empty_env_def AttributionIndex_init_def load_def load_body_def
      create_default_db_def save_def logmsg_def)

text \<open>
  Claim C1 at a failing input. On the index built over a missing file, which holds the
  three seed families, \<^verbatim>\<open>add_sample("new_family", {"ela_mean": 1.0})\<close> evaluates
  \<^verbatim>\<open>datetime.now()\<close> inside the dict display of line 150, which raises NameError
  before line 156 appends anything: the call returns \<open>False\<close>, the database is still
  the default one, no family of that name exists, and the file is as it was. A second
  call with the same vector does the same.
\<close>

theorem add_sample_new_family_not_created:
  "fst (add_sample ''new_family'' [(''ela_mean'', 1)]
          (AttributionIndex_init ''data/fingerprints.json'' empty_env)) = False
   \<and> db (snd (add_sample ''new_family'' [(''ela_mean'', 1)]
          (AttributionIndex_init ''data/fingerprints.json'' empty_env))) = default_db
   \<and> Some ''new_family'' \<notin> set (map name (get_families (db (snd
          (add_sample ''new_family'' [(''ela_mean'', 1)]
             (AttributionIndex_init ''data/fingerprints.json'' empty_env))))))
   \<and> disk (snd (add_sample ''new_family'' [(''ela_mean'', 1)]
          (AttributionIndex_init ''data/fingerprints.json'' empty_env)))
        = disk (AttributionIndex_init ''data/fingerprints.json'' empty_env)
   \<and> db (snd (add_sample ''new_family'' [(''ela_mean'', 1)]
          (snd (add_sample ''new_family'' [(''ela_mean'', 1)]
             (AttributionIndex_init ''data/fingerprints.json'' empty_env))))) = default_db"
proof -
  let ?s = "AttributionIndex_init ''data/fingerprints.json'' empty_env"
  have f: "families (db ?s) =
             Some (get_families default_db)"
    by (simp add: init_empty_env default_db_def get_families_def)
  have g: "find_family ''new_family'' (get_families default_db) = Inr None"
    by (simp add: default_db_def get_families_def)
  have a: "add_sample ''new_family'' [(''ela_mean'', 1)] ?s
             = (False, logmsg ERROR ''Failed to add sample to family'' ?s)"
    using add_sample_unknown_family [OF f g] .
  have f2: "families (db (logmsg ERROR ''Failed to add sample to family'' ?s)) =
             Some (get_families default_db)"
    using f by (simp add: logmsg_def)
  have b: "add_sample ''new_family'' [(''ela_mean'', 1)]
             (logmsg ERROR ''Failed to add sample to family'' ?s)
             = (False, logmsg ERROR ''Failed to add sample to family''
                 (logmsg ERROR ''Failed to add sample to family'' ?s))"
    using add_sample_unknown_family [OF f2 g] .
  have d: "db ?s = default_db" by (simp add: init_empty_env)
  show ?thesis
    by (simp add: a b) (simp add: logmsg_def d default_db_def get_families_def)
qed

text \<open>
  Claim C9 at a failing input. \<^verbatim>\<open>add_sample("faceswap_blend", {"ela_mean": 1.0})\<close> on
  the same index finds the family, updates its mean and its count in place (lines 163
  to 171), and raises NameError at line 172. The handler returns \<open>False\<close>; line 176 was
  not reached, so \<^verbatim>\<open>_save\<close> made no write attempt (the log gains the one error entry of
  line 180 and none of \<^verbatim>\<open>_save\<close>), and the file still holds the database of before
  while the index in memory holds the changed family.
\<close>

theorem add_sample_existing_family_not_saved:
  "fst (add_sample ''faceswap_blend'' [(''ela_mean'', 1)]
          (AttributionIndex_init ''data/fingerprints.json'' empty_env)) = False
   \<and> get_families (db (snd (add_sample ''faceswap_blend'' [(''ela_mean'', 1)]
          (AttributionIndex_init ''data/fingerprints.json'' empty_env)))) ! 0
        = \<lparr> name = Some ''faceswap_blend'',
            features_mean = Some [(''fft_high_ratio'', 62 / 100), (''ela_mean'', 1),
                                  (''lap_var'', 120), (''jpeg_score'', 55 / 100)],
            sample_count = Some 1, last_updated = None \<rparr>
   \<and> disk (snd (add_sample ''faceswap_blend'' [(''ela_mean'', 1)]
          (AttributionIndex_init ''data/fingerprints.json'' empty_env))) ''data/fingerprints.json''
        = Present (Document default_db)
   \<and> logged (snd (add_sample ''faceswap_blend'' [(''ela_mean'', 1)]
          (AttributionIndex_init ''data/fingerprints.json'' empty_env)))
        = logged (AttributionIndex_init ''data/fingerprints.json'' empty_env)
          @ [(ERROR, ''Failed to add sample to family'')]"
  by (simp add: init_empty_env add_sample_def add_sample_body_def update_family_def
      datetime_now_isoformat_def default_db_def get_families_def logmsg_def
      get_sample_count_def get_features_mean_def)

section \<open>Properties of the attribution index: queries\<close>

text \<open>
  Claim C10. For every state and every query input, \<open>all_families\<close>, \<open>match\<close> and
  \<open>get_family_stats\<close> leave the in-memory database as it was: the families, with
  their names, means, sample counts and timestamps, are identical before and after
  the call. They leave the path and the files alone as well; \<open>match\<close> only logs.
\<close>

theorem queries_do_not_mutate_db:
  "db (snd (all_families s)) = db s
   \<and> db (snd (match fs topk s)) = db s
   \<and> db (snd (get_family_stats s)) = db s
   \<and> disk (snd (all_families s)) = disk s
   \<and> disk (snd (match fs topk s)) = disk s
   \<and> disk (snd (get_family_stats s)) = disk s
   \<and> path (snd (match fs topk s)) = path s"
  by (simp add: all_families_def match_def get_family_stats_def logmsg_def Let_def
      split: prod.splits)

theorem queries_do_not_mutate_db_witness:
  "db (snd (match [(''ela_mean'', 18)] 3 (AttributionIndex_init ''data/fingerprints.json'' empty_env)))
     = default_db
   \<and> logged (snd (match [(''ela_mean'', 18)] 3 (AttributionIndex_init ''data/fingerprints.json'' empty_env)))
     \<noteq> logged (AttributionIndex_init ''data/fingerprints.json'' empty_env)"
proof -
  have "db (AttributionIndex_init ''data/fingerprints.json'' empty_env) = default_db"
    by (simp add: init_empty_env)
  moreover have "logged (snd (match [(''ela_mean'', 18)] 3 (AttributionIndex_init ''data/fingerprints.json'' empty_env)))
     \<noteq> logged (AttributionIndex_init ''data/fingerprints.json'' empty_env)"
    by (simp add: match_def logmsg_def split: prod.splits)
  ultimately show ?thesis
    using queries_do_not_mutate_db [of "AttributionIndex_init ''data/fingerprints.json'' empty_env"
        "[(''ela_mean'', 18)]" 3]
    by simp
qed

section \<open>Properties of the attribution index: the incremental mean\<close>

lemma update_means_no_raise: "n + 1 \<noteq> 0 \<Longrightarrow> fst (update_means n v cur) = None"
  by (induction n v cur rule: update_means.induct) (simp_all split: option.splits)

lemma update_means_lookup:
  assumes "n + 1 \<noteq> 0" "distinct (map fst v)"
  shows "map_of (snd (update_means n v cur)) k =
     (case map_of v k of
        None \<Rightarrow> map_of cur k
      | Some x \<Rightarrow> (case map_of cur k of
                     None \<Rightarrow> Some x
                   | Some m \<Rightarrow> Some (m + (x - m) / real_of_int (n + 1))))"
  using assms
proof (induction n v cur rule: update_means.induct)
  case (1 n cur)
  then show ?case by (simp split: option.splits)
next
  case (2 n key x rest cur)
  have nk: "map_of rest key = None"
    using "2.prems"(2) by (simp add: map_of_eq_None_iff)
  show ?case
  proof (cases "map_of cur key")
    case None
    then show ?thesis
      using "2.IH"(1) [OF None] "2.prems" nk
      by (simp add: update_conv split: option.splits)
  next
    case (Some m)
    then show ?thesis
      using "2.IH"(2) [OF Some] "2.prems" nk
      by (simp add: update_conv split: option.splits)
  qed
qed

lemma update_family_eq:
  assumes "get_sample_count f + 1 \<noteq> 0"
  shows "update_family v f =
     (Some NameError,
      f\<lparr>features_mean := Some (snd (update_means (get_sample_count f) v (get_features_mean f))),
        sample_count := Some (get_sample_count f + 1)\<rparr>)"
proof -
  obtain e cur where u: "update_means (get_sample_count f) v (get_features_mean f) = (e, cur)"
    by (cases "update_means (get_sample_count f) v (get_features_mean f)")
  then have "e = None"
    using update_means_no_raise [OF assms, of v "get_features_mean f"] by simp
  then show ?thesis
    using u by (simp add: update_family_def datetime_now_isoformat_def Let_def)
qed

lemma find_family_found:
  "find_family n fams = Inr (Some i) \<Longrightarrow> i < length fams \<and> name (fams ! i) = Some n"
proof (induction fams arbitrary: i)
  case Nil
  then show ?case by simp
next
  case (Cons f fams)
  then show ?case
    by (auto split: option.splits if_splits sum.splits simp: nth_Cons')
qed

lemma find_family_update:
  "find_family n fams = Inr (Some i) \<Longrightarrow> name f' = name (fams ! i) \<Longrightarrow>
   find_family n (fams[i := f']) = Inr (Some i)"
proof (induction fams arbitrary: i)
  case Nil
  then show ?case by simp
next
  case (Cons f fams)
  show ?case
  proof (cases i)
    case 0
    then show ?thesis using Cons.prems
      by (auto split: option.splits if_splits sum.splits)
  next
    case (Suc j)
    then show ?thesis using Cons.prems Cons.IH [of j]
      by (auto split: option.splits if_splits sum.splits)
  qed
qed

lemma add_sample_existing:
  assumes "families (db s) = Some fams" "find_family n fams = Inr (Some i)"
    and "get_sample_count (fams ! i) + 1 \<noteq> 0"
  shows "add_sample n v s =
     (False, logmsg ERROR ''Failed to add sample to family''
        (s\<lparr>db := (db s)\<lparr>families := Some (fams[i :=
            (fams ! i)\<lparr>features_mean :=
                 Some (snd (update_means (get_sample_count (fams ! i)) v
                              (get_features_mean (fams ! i)))),
               sample_count := Some (get_sample_count (fams ! i) + 1)\<rparr>])\<rparr>\<rparr>))"
  using assms(1,2) update_family_eq [OF assms(3), of v]
  by (simp add: add_sample_def add_sample_body_def)

lemma add_sample_existing_family:
  assumes "families (db s) = Some fams" "find_family n fams = Inr (Some i)"
    and "get_sample_count (fams ! i) + 1 \<noteq> 0"
  shows "\<exists>f'. families (db (snd (add_sample n v s))) = Some (fams[i := f'])
     \<and> name f' = name (fams ! i) \<and> last_updated f' = last_updated (fams ! i)
     \<and> sample_count f' = Some (get_sample_count (fams ! i) + 1)
     \<and> features_mean f' =
         Some (snd (update_means (get_sample_count (fams ! i)) v (get_features_mean (fams ! i))))"
  by (intro exI [of _ "(fams ! i)\<lparr>features_mean :=
                 Some (snd (update_means (get_sample_count (fams ! i)) v
                              (get_features_mean (fams ! i)))),
               sample_count := Some (get_sample_count (fams ! i) + 1)\<rparr>"])
     (simp add: add_sample_existing [OF assms] logmsg_def)

lemma fold_add_sample_mean:
  assumes "families (db s) = Some fams" "find_family n fams = Inr (Some i)"
    and "get_sample_count (fams ! i) = c" "0 < c"
    and "map_of (get_features_mean (fams ! i)) k = Some m"
    and "\<forall>u \<in> set vs. distinct (map fst u) \<and> map_of u k \<noteq> None"
  shows "\<exists>fams'. families (db (fold (\<lambda>u t. snd (add_sample n u t)) vs s)) = Some fams'
     \<and> get_sample_count (fams' ! i) = c + int (length vs)
     \<and> map_of (get_features_mean (fams' ! i)) k =
         Some ((real_of_int c * m + sum_list (map (\<lambda>u. the (map_of u k)) vs))
               / real_of_int (c + int (length vs)))"
  using assms
proof (induction vs arbitrary: s fams c m)
  case Nil
  then show ?case by simp
next
  case (Cons v vs)
  let ?F = "fams ! i"
  have c1: "get_sample_count ?F + 1 \<noteq> 0" using Cons.prems(3,4) by simp
  have il: "i < length fams" using find_family_found [OF Cons.prems(2)] by simp
  obtain x where x: "map_of v k = Some x" using Cons.prems(6) by auto
  have dv: "distinct (map fst v)" using Cons.prems(6) by simp
  obtain f' where f': "families (db (snd (add_sample n v s))) = Some (fams[i := f'])"
    "name f' = name ?F" "sample_count f' = Some (get_sample_count ?F + 1)"
    "features_mean f' = Some (snd (update_means (get_sample_count ?F) v (get_features_mean ?F)))"
    using add_sample_existing_family [OF Cons.prems(1,2) c1, of v] by blast
  have ff: "find_family n (fams[i := f']) = Inr (Some i)"
    using find_family_update [OF Cons.prems(2) f'(2)] .
  have cnt: "get_sample_count (fams[i := f'] ! i) = c + 1"
    using il f'(3) Cons.prems(3) by (simp add: get_sample_count_def)
  have mean: "map_of (get_features_mean (fams[i := f'] ! i)) k
                = Some (m + (x - m) / real_of_int (c + 1))"
    using il f'(4) update_means_lookup [OF c1 dv, of "get_features_mean ?F" k] x
      Cons.prems(3,5)
    by (simp add: get_features_mean_def)
  have rest: "\<forall>u \<in> set vs. distinct (map fst u) \<and> map_of u k \<noteq> None"
    using Cons.prems(6) by (meson list.set_intros(2))
  have pos: "0 < c + 1" using Cons.prems(4) by simp
  obtain fams' where r: "families (db (fold (\<lambda>u t. snd (add_sample n u t)) vs
                              (snd (add_sample n v s)))) = Some fams'"
    "get_sample_count (fams' ! i) = (c + 1) + int (length vs)"
    "map_of (get_features_mean (fams' ! i)) k =
       Some ((real_of_int (c + 1) * (m + (x - m) / real_of_int (c + 1))
              + sum_list (map (\<lambda>u. the (map_of u k)) vs))
             / real_of_int ((c + 1) + int (length vs)))"
    using Cons.IH [OF f'(1) ff cnt pos mean rest] by blast
  have alg: "real_of_int (c + 1) * (m + (x - m) / real_of_int (c + 1)) = real_of_int c * m + x"
    using pos by (simp add: field_simps)
  show ?case
    using r x unfolding alg by (simp add: ac_simps)
qed

text \<open>
  Claim C4, as amended. For an existing family with current sample count \<open>n \<ge> 0\<close> and a
  sample with distinct keys, \<open>add_sample\<close> leaves in memory a family of the same name
  whose sample count is \<open>n + 1\<close> and whose mean holds, for every key: the old mean plus
  (value - old mean) / (n + 1) when the key is in both, the sample's value
  when the key is new, and the old mean when the sample lacks the key (the call itself
  returns \<open>False\<close> and saves nothing, see C1 and C9). For a family that starts at
  sample count 0 and a non-empty sequence of samples that all hold the key, the
  resulting mean of the key is the arithmetic mean of the contributed values, and the
  sample count is the number of samples.
\<close>

theorem add_sample_incremental_mean:
  assumes "families (db s) = Some fams" and "find_family n fams = Inr (Some i)"
    and "0 \<le> get_sample_count (fams ! i)"
    and "\<forall>u \<in> set (v # vs). distinct (map fst u)"
  shows "(\<exists>f'. get_families (db (snd (add_sample n v s))) = fams[i := f']
          \<and> name f' = name (fams ! i)
          \<and> sample_count f' = Some (get_sample_count (fams ! i) + 1)
          \<and> (\<forall>k. map_of (get_features_mean f') k =
                (case map_of v k of
                   None \<Rightarrow> map_of (get_features_mean (fams ! i)) k
                 | Some x \<Rightarrow>
                     (case map_of (get_features_mean (fams ! i)) k of
                        None \<Rightarrow> Some x
                      | Some m \<Rightarrow>
                          Some (m + (x - m) / real_of_int (get_sample_count (fams ! i) + 1))))))
    \<and> (get_sample_count (fams ! i) = 0 \<and> (\<forall>u \<in> set (v # vs). map_of u k \<noteq> None) \<longrightarrow>
         map_of (get_features_mean
                  (get_families (db (fold (\<lambda>u t. snd (add_sample n u t)) (v # vs) s)) ! i)) k
           = Some (sum_list (map (\<lambda>u. the (map_of u k)) (v # vs)) / real (length (v # vs)))
         \<and> get_sample_count
             (get_families (db (fold (\<lambda>u t. snd (add_sample n u t)) (v # vs) s)) ! i)
           = int (length (v # vs)))"
proof -
  let ?F = "fams ! i"
  have c1: "get_sample_count ?F + 1 \<noteq> 0" using assms(3) by simp
  have il: "i < length fams" using find_family_found [OF assms(2)] by simp
  have dv: "distinct (map fst v)" using assms(4) by simp
  obtain f' where f': "families (db (snd (add_sample n v s))) = Some (fams[i := f'])"
    "name f' = name ?F" "sample_count f' = Some (get_sample_count ?F + 1)"
    "features_mean f' = Some (snd (update_means (get_sample_count ?F) v (get_features_mean ?F)))"
    using add_sample_existing_family [OF assms(1,2) c1, of v] by blast
  have look: "\<And>k. map_of (get_features_mean f') k =
                (case map_of v k of
                   None \<Rightarrow> map_of (get_features_mean ?F) k
                 | Some x \<Rightarrow>
                     (case map_of (get_features_mean ?F) k of
                        None \<Rightarrow> Some x
                      | Some m \<Rightarrow> Some (m + (x - m) / real_of_int (get_sample_count ?F + 1))))"
    using f'(4) update_means_lookup [OF c1 dv, of "get_features_mean ?F"]
    by (simp add: get_features_mean_def)
  have first: "\<exists>f'. get_families (db (snd (add_sample n v s))) = fams[i := f']
          \<and> name f' = name ?F
          \<and> sample_count f' = Some (get_sample_count ?F + 1)
          \<and> (\<forall>k. map_of (get_features_mean f') k =
                (case map_of v k of
                   None \<Rightarrow> map_of (get_features_mean ?F) k
                 | Some x \<Rightarrow>
                     (case map_of (get_features_mean ?F) k of
                        None \<Rightarrow> Some x
                      | Some m \<Rightarrow> Some (m + (x - m) / real_of_int (get_sample_count ?F + 1)))))"
    using f'(1,2,3) look by (auto simp: get_families_def)
  have second: "map_of (get_features_mean
                  (get_families (db (fold (\<lambda>u t. snd (add_sample n u t)) (v # vs) s)) ! i)) k
           = Some (sum_list (map (\<lambda>u. the (map_of u k)) (v # vs)) / real (length (v # vs)))
         \<and> get_sample_count
             (get_families (db (fold (\<lambda>u t. snd (add_sample n u t)) (v # vs) s)) ! i)
           = int (length (v # vs))"
    if z: "get_sample_count ?F = 0" and has: "\<forall>u \<in> set (v # vs). map_of u k \<noteq> None"
  proof -
    obtain x where x: "map_of v k = Some x" using has by auto
    have ff: "find_family n (fams[i := f']) = Inr (Some i)"
      using find_family_update [OF assms(2) f'(2)] .
    have cnt: "get_sample_count (fams[i := f'] ! i) = 1"
      using il f'(3) z by (simp add: get_sample_count_def)
    have mean: "map_of (get_features_mean (fams[i := f'] ! i)) k = Some x"
      using il look [of k] x z by (simp split: option.splits)
    have rest: "\<forall>u \<in> set vs. distinct (map fst u) \<and> map_of u k \<noteq> None"
      using assms(4) has by (meson list.set_intros(2))
    obtain fams' where r: "families (db (fold (\<lambda>u t. snd (add_sample n u t)) vs
                              (snd (add_sample n v s)))) = Some fams'"
      "get_sample_count (fams' ! i) = 1 + int (length vs)"
      "map_of (get_features_mean (fams' ! i)) k =
         Some ((real_of_int 1 * x + sum_list (map (\<lambda>u. the (map_of u k)) vs))
               / real_of_int (1 + int (length vs)))"
      using fold_add_sample_mean [OF f'(1) ff cnt _ mean rest] by auto
    show ?thesis
      using r x by (simp add: get_families_def ac_simps)
  qed
  show ?thesis using first second by blast
qed

theorem add_sample_incremental_mean_witness:
  "families (db (AttributionIndex_init ''data/fingerprints.json'' empty_env))
     = Some (get_families default_db)
   \<and> find_family ''faceswap_blend'' (get_families default_db) = Inr (Some 0)
   \<and> get_sample_count (get_families default_db ! 0) = 0
   \<and> distinct (map fst [(''ela_mean'', 1 :: real)])
   \<and> distinct (map fst [(''ela_mean'', 3 :: real)])
   \<and> map_of [(''ela_mean'', 1 :: real)] ''ela_mean'' = Some 1
   \<and> map_of [(''ela_mean'', 3 :: real)] ''ela_mean'' = Some 3
   \<and> map_of (get_features_mean (get_families (db
         (fold (\<lambda>u t. snd (add_sample ''faceswap_blend'' u t))
            [[(''ela_mean'', 1)], [(''ela_mean'', 3)]]
            (AttributionIndex_init ''data/fingerprints.json'' empty_env))) ! 0)) ''ela_mean''
       = Some 2"
proof -
  let ?S = "AttributionIndex_init ''data/fingerprints.json'' empty_env"
  have h1: "families (db ?S) = Some (get_families default_db)"
    by (simp add: init_empty_env default_db_def get_families_def)
  have h2: "find_family ''faceswap_blend'' (get_families default_db) = Inr (Some 0)"
    by (simp add: default_db_def get_families_def)
  have h3: "get_sample_count (get_families default_db ! 0) = 0"
    by (simp add: default_db_def get_families_def get_sample_count_def)
  have h3': "0 \<le> get_sample_count (get_families default_db ! 0)"
    using h3 by simp
  have h4: "\<forall>u \<in> set ([(''ela_mean'', 1)] # [[(''ela_mean'', 3 :: real)]]). distinct (map fst u)"
    by simp
  have h5: "\<forall>u \<in> set ([(''ela_mean'', 1)] # [[(''ela_mean'', 3 :: real)]]).
              map_of u ''ela_mean'' \<noteq> None"
    by simp
  have "map_of (get_features_mean (get_families (db
         (fold (\<lambda>u t. snd (add_sample ''faceswap_blend'' u t))
            ([(''ela_mean'', 1)] # [[(''ela_mean'', 3)]]) ?S)) ! 0)) ''ela_mean''
       = Some (sum_list (map (\<lambda>u. the (map_of u ''ela_mean''))
                 ([(''ela_mean'', 1)] # [[(''ela_mean'', 3 :: real)]]))
               / real (length ([(''ela_mean'', 1 :: real)] # [[(''ela_mean'', 3)]])))"
    using add_sample_incremental_mean [OF h1 h2 h3' h4, of "''ela_mean''"] h3 h5 by blast
  then have "map_of (get_features_mean (get_families (db
         (fold (\<lambda>u t. snd (add_sample ''faceswap_blend'' u t))
            [[(''ela_mean'', 1)], [(''ela_mean'', 3)]] ?S)) ! 0)) ''ela_mean'' = Some 2"
    by simp
  then show ?thesis using h1 h2 h3 by simp
qed

text \<open>
  The family keeps one sample count for all its keys. A key that only some samples
  hold is averaged with that count: the family \<open>faceswap_blend\<close> (sample count 0) is
  given \<open>{x: 6}\<close>, \<open>{ela_mean: 1}\<close> and \<open>{x: 0}\<close>; the third call updates \<open>x\<close> with
  \<open>n = 2\<close> to \<open>6 + (0 - 6) / 3 = 4\<close>, while the arithmetic mean of the two values
  contributed for \<open>x\<close> is 3.
\<close>

theorem add_sample_mean_of_partial_key:
  "map_of (get_features_mean (get_families (db
      (fold (\<lambda>u t. snd (add_sample ''faceswap_blend'' u t))
         [[(''x'', 6)], [(''ela_mean'', 1)], [(''x'', 0)]]
         (AttributionIndex_init ''data/fingerprints.json'' empty_env))) ! 0)) ''x'' = Some 4
   \<and> sum_list [6, 0 :: real] / real (length [6, 0 :: real]) = 3"
  by (simp add: init_empty_env add_sample_def add_sample_body_def update_family_def
      datetime_now_isoformat_def default_db_def get_families_def logmsg_def
      get_sample_count_def get_features_mean_def)

section \<open>Properties of the attribution index: match\<close>
























section \<open>Properties of the error level analysis\<close>

lemma fold_max_base: "fold max xs (s :: nat) = max s (fold max xs 0)"
proof (induction xs arbitrary: s)
  case Nil
  then show ?case by simp
next
  case (Cons x xs)
  show ?case
    using Cons.IH [of "max x s"] Cons.IH [of "max x 0"] by (simp add: max.assoc max.commute)
qed

lemma scale_of_bands:
  "fold (\<lambda>band s. max s (fold max band 0)) bs s0 = fold max (concat bs) (s0 :: nat)"
proof (induction bs arbitrary: s0)
  case Nil
  then show ?case by simp
next
  case (Cons b bs)
  show ?case
    using Cons.IH [of "max s0 (fold max b 0)"] fold_max_base [of b s0] by simp
qed

lemma fold_max_props:
  "(\<forall>p \<in> set xs. p \<le> fold max xs (s :: nat)) \<and> s \<le> fold max xs s
   \<and> (fold max xs s \<in> set xs \<or> fold max xs s = s)"
proof (induction xs arbitrary: s)
  case Nil
  then show ?case by simp
next
  case (Cons x xs)
  from Cons.IH [of "max x s"] show ?case by (auto simp: max_def split: if_splits)
qed

lemma concat_zipped_bands:
  "map length X = map length Y \<Longrightarrow>
   concat (map (\<lambda>(x, y). map g (zip x y)) (zip X Y)) = map g (zip (concat X) (concat Y))"
proof (induction X arbitrary: Y)
  case Nil
  then show ?case by simp
next
  case (Cons x X)
  then obtain y Y' where Y: "Y = y # Y'" by (cases Y) auto
  then have "length x = length y" "map length X = map length Y'" using Cons.prems by simp_all
  then show ?case using Cons.IH [of Y'] Y by simp
qed

lemma concat_same_length:
  "map length X = map length Y \<Longrightarrow> length (concat X) = length (concat Y)"
  by (simp add: length_concat)

lemma sum_list_stretched:
  fixes f :: "nat \<Rightarrow> nat"
  assumes "\<forall>p \<in> set xs. p \<le> f p" "m \<in> set xs" "m < f m"
  shows "sum_list xs < sum_list (map f xs)"
proof -
  have "sum_list (map f xs) = sum_list (map (\<lambda>p. p + (f p - p)) xs)"
    using assms(1) by (intro arg_cong [where f = sum_list] map_cong) auto
  also have "\<dots> = sum_list xs + sum_list (map (\<lambda>p. f p - p) xs)"
    by (simp add: sum_list_addf)
  finally have e: "sum_list (map f xs) = sum_list xs + sum_list (map (\<lambda>p. f p - p) xs)" .
  have "f m - m \<in> set (map (\<lambda>p. f p - p) xs)" using assms(2) by auto
  then have "f m - m \<le> sum_list (map (\<lambda>p. f p - p) xs)"
    using member_le_sum_list [of "f m - m" "map (\<lambda>p. f p - p) xs"] by simp
  then show ?thesis using e assms(3) by simp
qed

lemma sum_abs_diff_real:
  "sum_list (map (\<lambda>(p, q). \<bar>real p - real q\<bar>) zs)
     = real (sum_list (map (\<lambda>(p, q). if p \<le> q then q - p else p - q) zs))"
  by (induction zs) auto

lemma sum_abs_real: "sum_list (map (\<lambda>p. \<bar>real p\<bar>) ys) = real (sum_list ys)"
  by (induction ys) auto

lemma brightness_stretch:
  assumes "p \<le> M" "1 \<le> M" "M < 255"
  shows "p \<le> nat (min 255 (max 0 \<lfloor>255 / real M * real p\<rfloor>))"
    and "nat (min 255 (max 0 \<lfloor>255 / real M * real M\<rfloor>)) = 255"
proof -
  have "real M \<le> 255" using assms(3) by simp
  then have "real p * real M \<le> 255 * real p"
    using mult_right_mono [of "real M" 255 "real p"] by (simp add: mult.commute)
  then have "real p \<le> 255 / real M * real p"
    using assms(2) by (simp add: field_simps)
  then have "int p \<le> \<lfloor>255 / real M * real p\<rfloor>"
    by (simp add: le_floor_iff)
  moreover have "int p \<le> 255" using assms(1,3) by simp
  ultimately show "p \<le> nat (min 255 (max 0 \<lfloor>255 / real M * real p\<rfloor>))" by simp
  have "255 / real M * real M = 255" using assms(2) by simp
  then show "nat (min 255 (max 0 \<lfloor>255 / real M * real M\<rfloor>)) = 255" by simp
qed

text \<open>
  Whatever the codec returns: when the re-encoded RGB image differs from the original
  somewhere and no sample differs by 255, the scalar returned is strictly above the
  mean absolute difference between the two.
\<close>

lemma error_level_analysis_above_mean_abs_diff:
  assumes "mode im = RGB" and "difference im (jpeg q im) = Inr d"
    and "\<forall>p \<in> set (concat (bands d)). p < 255" and "\<exists>p \<in> set (concat (bands d)). 0 < p"
  shows "\<exists>img r. error_level_analysis jpeg im q = Inr (img, r)
           \<and> mean_abs_diff im (jpeg q im) < r"
proof -
  let ?rec = "jpeg q im"
  let ?D = "concat (bands d)"
  let ?g = "\<lambda>(p, q). if p \<le> q then q - p else p - (q :: nat)"
  have same: "mode im = mode ?rec" "map length (bands im) = map length (bands ?rec)"
    using assms(2) by (auto simp: difference_def split: if_splits)
  have d: "d = \<lparr> mode = mode im,
                 bands = map (\<lambda>(x, y). map ?g (zip x y)) (zip (bands im) (bands ?rec)) \<rparr>"
    using assms(2) same by (simp add: difference_def)
  have D: "?D = map ?g (zip (concat (bands im)) (concat (bands ?rec)))"
    unfolding d using concat_zipped_bands [OF same(2), of ?g] by simp
  have len: "length ?D = length (concat (bands im))"
    unfolding D using concat_same_length [OF same(2)] by simp
  have raw: "mean_abs_diff im ?rec = real (sum_list ?D) / real (length ?D)"
  proof -
    have "mean_abs_diff im ?rec
            = real (sum_list (map ?g (zip (concat (bands im)) (concat (bands ?rec)))))
              / real (length (concat (bands im)))"
      by (simp add: mean_abs_diff_def sum_abs_diff_real)
    then show ?thesis by (simp only: D [symmetric] len [symmetric])
  qed
  define M where "M = fold max ?D 1"
  have sc: "fold (\<lambda>band s. max s (fold max band 0)) (bands d) 1 = M"
    unfolding M_def by (rule scale_of_bands)
  have Mp: "\<forall>p \<in> set ?D. p \<le> M" "1 \<le> M" "M \<in> set ?D \<or> M = 1"
    using fold_max_props [of ?D 1] unfolding M_def by auto
  obtain p0 where p0: "p0 \<in> set ?D" "0 < p0" using assms(4) by blast
  have Min: "M \<in> set ?D"
  proof (cases "M = 1")
    case True
    then have "p0 = 1" using Mp(1) p0 by force
    then show ?thesis using p0 True by simp
  next
    case False
    then show ?thesis using Mp(3) by simp
  qed
  have Mlt: "M < 255" using assms(3) Min by blast
  let ?e = "\<lambda>p. nat (min 255 (max 0 \<lfloor>255 / real M * real p\<rfloor>))"
  have up: "\<forall>p \<in> set ?D. p \<le> ?e p"
    using brightness_stretch(1) [OF _ Mp(2) Mlt] Mp(1) by blast
  have top: "M < ?e M"
    using brightness_stretch(2) [OF _ Mp(2) Mlt, of M] Mlt by simp
  have gt: "sum_list ?D < sum_list (map ?e ?D)"
    using sum_list_stretched [of ?D ?e M] up Min top by blast
  have ne: "0 < length ?D" using p0 by (cases ?D) auto
  have arr: "concat (bands (enhance (255 / real M) d)) = map ?e ?D"
    by (simp add: enhance_def map_concat)
  have md: "mode d = RGB" using d assms(1) by simp
  have res: "error_level_analysis jpeg im q =
     Inr (enhance (255 / real M) d,
          sum_list (map (\<lambda>p. \<bar>real p\<bar>) (concat (bands (enhance (255 / real M) d))))
            / real (length (concat (bands (enhance (255 / real M) d)))))"
    using assms(1,2) md sc Mp(2) by (simp add: error_level_analysis_def Let_def)
  have val: "sum_list (map (\<lambda>p. \<bar>real p\<bar>) (concat (bands (enhance (255 / real M) d))))
               / real (length (concat (bands (enhance (255 / real M) d))))
               = real (sum_list (map ?e ?D)) / real (length ?D)"
    unfolding arr sum_abs_real by simp
  have "real (sum_list ?D) / real (length ?D) < real (sum_list (map ?e ?D)) / real (length ?D)"
    using gt ne by (simp add: divide_strict_right_mono)
  then show ?thesis unfolding raw using res val by simp
qed

text \<open>
  Claim C7 at a failing input. A one-pixel RGB image with the samples 100, 100, 100
  that the codec reads back as 95, 100, 100: the difference image is 5, 0, 0 and the
  mean absolute difference is 5/3. Line 21 replaces \<^verbatim>\<open>ela_img\<close> by its
  brightness-normalised copy (factor 255/5), and lines 22 and 23 take the mean of
  that copy: the scalar returned is 85. On the same pixel in mode L the loop of
  line 18 raises TypeError and nothing is returned.
\<close>

theorem error_level_analysis_mean_of_normalised_image:
  "error_level_analysis (\<lambda>q im. im\<lparr>bands := [[95], [100], [100]]\<rparr>)
      \<lparr>mode = RGB, bands = [[100], [100], [100]]\<rparr> 90
     = Inr (\<lparr>mode = RGB, bands = [[255], [0], [0]]\<rparr>, 85)
   \<and> mean_abs_diff \<lparr>mode = RGB, bands = [[100], [100], [100]]\<rparr>
        \<lparr>mode = RGB, bands = [[95], [100], [100]]\<rparr> = 5 / 3
   \<and> error_level_analysis (\<lambda>q im. im\<lparr>bands := [[95]]\<rparr>) \<lparr>mode = L, bands = [[100]]\<rparr> 90
     = Inl TypeError"
  by (simp add: error_level_analysis_def difference_def enhance_def mean_abs_diff_def Let_def)

section \<open>Properties of the batch processor\<close>







end
